theory Spec2Isabelle
  imports Complex_Main
begin

section \<open>Data model\<close>

text \<open>
  The detector works on \<^verbatim>\<open>float\<close> coordinates and \<^verbatim>\<open>double\<close> ranges. Both are
  modelled as real numbers: rounding, infinities and NaN are outside this development.
  Member names of the class drop the trailing underscore of the source.
\<close>

record PointXYZ =
  x :: real
  y :: real
  z :: real



section \<open>Region partitioner (extractCluster, first half)\<close>


definition d2_of :: "PointXYZ \<Rightarrow> real" where
  "d2_of p = x p * x p + y p * y p + z p * z p"









section \<open>External capabilities\<close>

text \<open>
  Eigen vectors and matrices are indexed containers of reals. A \<^verbatim>\<open>Feature\<close> carries the
  visualisation fields and the classification fields of the source struct; the fields
  \<^verbatim>\<open>min\<close> and \<^verbatim>\<open>max\<close> are \<open>f_min\<close> and \<open>f_max\<close> here.
\<close>

type_synonym Vector4f = "nat \<Rightarrow> real"

type_synonym Matrix3f = "nat \<Rightarrow> nat \<Rightarrow> real"

record Feature =
  centroid :: Vector4f
  f_min :: Vector4f
  f_max :: Vector4f
  number_points :: int
  min_distance :: real
  covariance_3d :: Matrix3f
  moment_3d :: Matrix3f
  slice :: "nat \<Rightarrow> real"

record svm_node =
  index :: int
  node_value :: real

record extractClusterParam_t =
  minClusterSize :: int
  maxClusterSize :: int
  voxelX :: real
  voxelY :: real
  voxelZ :: real
  countThreshold :: int

text \<open>
  The libraries the detector calls are not part of the repository (PCL, the CUDA
  clustering library, libsvm); each call is a parameter of the model:
  \<^item> \<open>getMinMax3D\<close>, \<open>compute3DCentroid\<close>, \<open>computeCovarianceMatrixNormalized\<close>: PCL;
  \<^item> \<open>pca_project\<close>: a \<^verbatim>\<open>pcl::PCA\<close> fed a cloud and projecting that same cloud;
  \<^item> \<open>cudaec_extract\<close>: \<^verbatim>\<open>cudaExtractCluster::extract\<close> after \<^verbatim>\<open>set\<close>, from the
    parameters and the regional cloud to the buffers \<^verbatim>\<open>outputEC\<close> (floats, four per
    point) and \<^verbatim>\<open>indexEC\<close> (cluster count at 0, then the cluster sizes);
  \<^item> \<open>svm_predict_probability\<close> (the array \<^verbatim>\<open>prob_estimates\<close> it fills) and
    \<open>svm_predict\<close>.
\<close>

record extern =
  getMinMax3D :: "PointXYZ list \<Rightarrow> Vector4f \<times> Vector4f"
  compute3DCentroid :: "PointXYZ list \<Rightarrow> Vector4f"
  computeCovarianceMatrixNormalized :: "PointXYZ list \<Rightarrow> Vector4f \<Rightarrow> Matrix3f"
  pca_project :: "PointXYZ list \<Rightarrow> PointXYZ list"
  cudaec_extract :: "extractClusterParam_t \<Rightarrow> PointXYZ list \<Rightarrow> (nat \<Rightarrow> real) \<times> (nat \<Rightarrow> nat)"
  svm_predict_probability :: "(nat \<Rightarrow> svm_node) \<Rightarrow> nat \<Rightarrow> real"
  svm_predict :: "(nat \<Rightarrow> svm_node) \<Rightarrow> real"

section \<open>The detector\<close>

definition FEATURE_SIZE :: nat where
  "FEATURE_SIZE = 34"

definition FLT_MAX :: real where
  "FLT_MAX = (2 - 1 / 2 ^ 23) * 2 ^ 127"

definition DBL_EPSILON :: real where
  "DBL_EPSILON = 1 / 2 ^ 52"

record Object3dDetector =
  z_limit_min :: real
  z_limit_max :: real
  cluster_size_min :: int
  cluster_size_max :: int
  human_probability :: real
  human_size_limit :: bool
  use_svm_model :: bool
  is_probability_model :: bool
  svm_scale_range :: "nat \<Rightarrow> real \<times> real"
  svm_x_lower :: real
  svm_x_upper :: real

subsection \<open>Constructor\<close>

text \<open>
  The \<^verbatim>\<open>fscanf\<close> loop over the rows \<^verbatim>\<open>idx fmin fmax\<close> of the range file. A row whose
  \<^verbatim>\<open>idx-1\<close> is not an index of \<^verbatim>\<open>svm_scale_range_[FEATURE_SIZE][2]\<close> writes
  outside the array: \<open>None\<close>.
\<close>

fun range_rows :: "(int \<times> real \<times> real) list \<Rightarrow> (nat \<Rightarrow> real \<times> real) \<Rightarrow> (nat \<Rightarrow> real \<times> real) option" where
  "range_rows [] r = Some r"
| "range_rows ((idx, fmin, fmax) # rows) r =
     (if 1 \<le> idx \<and> idx \<le> int FEATURE_SIZE
      then range_rows rows (r(nat (idx - 1) := (fmin, fmax)))
      else None)"

text \<open>
  The constructor. \<open>d0\<close> is the object once the ROS parameters are read: its fields
  \<open>is_probability_model\<close>, \<open>svm_scale_range\<close>, \<open>svm_x_lower\<close> and \<open>svm_x_upper\<close> have
  no initialiser in the source, so they hold whatever the memory held. \<open>model\<close> is the
  result of \<^verbatim>\<open>svm_load_model\<close> (\<open>None\<close> for \<^verbatim>\<open>NULL\<close>, else what
  \<^verbatim>\<open>svm_check_probability_model\<close> says of it); \<open>range_file\<close> is the result of
  \<^verbatim>\<open>fopen\<close> (\<open>None\<close> for \<^verbatim>\<open>NULL\<close>, else the two bounds and the rows read).
\<close>

definition Object3dDetector_init ::
  "Object3dDetector \<Rightarrow> bool option \<Rightarrow> (real \<times> real \<times> (int \<times> real \<times> real) list) option
     \<Rightarrow> Object3dDetector option" where
  "Object3dDetector_init d0 model range_file =
     (let d1 = d0\<lparr>use_svm_model := False\<rparr> in
      case model of
        None \<Rightarrow> Some d1
      | Some prob \<Rightarrow>
          (let d2 = d1\<lparr>is_probability_model := prob\<rparr> in
           case range_file of
             None \<Rightarrow> Some d2
           | Some (lower, upper, rows) \<Rightarrow>
               (let d3 = d2\<lparr>svm_x_lower := lower, svm_x_upper := upper\<rparr> in
                case range_rows rows (svm_scale_range d3) of
                  None \<Rightarrow> None
                | Some r \<Rightarrow> Some (d3\<lparr>svm_scale_range := r, use_svm_model := True\<rparr>))))"

subsection \<open>Feature extraction\<close>

definition mat_add :: "Matrix3f \<Rightarrow> nat \<Rightarrow> nat \<Rightarrow> real \<Rightarrow> Matrix3f" where
  "mat_add m i j v = m(i := (m i)(j := m i j + v))"

definition mat_set :: "Matrix3f \<Rightarrow> nat \<Rightarrow> nat \<Rightarrow> real \<Rightarrow> Matrix3f" where
  "mat_set m i j v = m(i := (m i)(j := v))"

definition moment_step :: "PointXYZ \<Rightarrow> Matrix3f \<Rightarrow> Matrix3f" where
  "moment_step p m =
     (let m = mat_add m 0 0 (y p * y p + z p * z p);
          m = mat_add m 0 1 (- (x p * y p));
          m = mat_add m 0 2 (- (x p * z p));
          m = mat_add m 1 1 (x p * x p + z p * z p);
          m = mat_add m 1 2 (- (y p * z p));
          m = mat_add m 2 2 (x p * x p + y p * y p)
      in m)"

definition computeMomentOfInertiaTensorNormalized :: "PointXYZ list \<Rightarrow> Matrix3f" where
  "computeMomentOfInertiaTensorNormalized pc =
     (let m = fold moment_step pc (\<lambda>i j. 0);
          m = mat_set m 1 0 (m 0 1);
          m = mat_set m 2 0 (m 0 2);
          m = mat_set m 2 1 (m 1 2)
      in m)"

text \<open>The cast \<^verbatim>\<open>(int)\<close> of a double: towards zero.\<close>

definition trunc_int :: "real \<Rightarrow> int" where
  "trunc_int r = (if 0 \<le> r then \<lfloor>r\<rfloor> else \<lceil>r\<rceil>)"

text \<open>
  \<^verbatim>\<open>j = std::min((n-1), (int)q)\<close> for an \<^verbatim>\<open>unsigned int j\<close> that then indexes
  \<^verbatim>\<open>blocks[n]\<close>. \<open>None\<close> when the cast leaves the range of \<^verbatim>\<open>int\<close>, or when the
  minimum is negative, which as an unsigned index lies beyond the array.
\<close>

definition block_index :: "nat \<Rightarrow> real \<Rightarrow> nat option" where
  "block_index n q =
     (let t = trunc_int q in
      if t < - (2 ^ 31) \<or> 2 ^ 31 \<le> t then None
      else (let j = min (int n - 1) t in if j < 0 then None else Some (nat j)))"

fun blocks_loop :: "nat \<Rightarrow> real \<Rightarrow> real \<Rightarrow> PointXYZ list \<Rightarrow> PointXYZ list list \<Rightarrow> PointXYZ list list option" where
  "blocks_loop n zmin itv [] blocks = Some blocks"
| "blocks_loop n zmin itv (p # ps) blocks =
     (case block_index n ((z p - zmin) / itv) of
        None \<Rightarrow> None
      | Some j \<Rightarrow> blocks_loop n zmin itv ps (blocks[j := blocks ! j @ [p]]))"

definition block_extent :: "extern \<Rightarrow> PointXYZ list \<Rightarrow> real \<times> real" where
  "block_extent ext block =
     (if length block > 2
      then (let (block_min, block_max) = getMinMax3D ext (pca_project ext block)
            in (block_max 0 - block_min 0, block_max 1 - block_min 1))
      else (0 - 0, 0 - 0))"

fun slice_loop :: "extern \<Rightarrow> PointXYZ list list \<Rightarrow> nat \<Rightarrow> (nat \<Rightarrow> real) \<Rightarrow> (nat \<Rightarrow> real)" where
  "slice_loop ext [] i sl = sl"
| "slice_loop ext (block # blocks) i sl =
     slice_loop ext blocks (Suc i)
       (sl(i * 2 := fst (block_extent ext block), i * 2 + 1 := snd (block_extent ext block)))"

text \<open>
  \<^verbatim>\<open>computeSlice(pc, n, slice)\<close>. The source calls it with \<^verbatim>\<open>n = 10\<close> only, and the
  model is meant for that call: the slice array has 20 entries.
\<close>

definition computeSlice :: "extern \<Rightarrow> PointXYZ list \<Rightarrow> nat \<Rightarrow> (nat \<Rightarrow> real) \<Rightarrow> (nat \<Rightarrow> real) option" where
  "computeSlice ext pc n sl =
     (let sl = fold (\<lambda>i s. s(i := 0)) [0..<20] sl;
          (pc_min, pc_max) = getMinMax3D ext pc;
          itv = (pc_max 2 - pc_min 2) / real n
      in if itv > 0
         then (case blocks_loop n (pc_min 2) itv pc (replicate n []) of
                 None \<Rightarrow> None
               | Some blocks \<Rightarrow> Some (slice_loop ext blocks 0 sl))
         else Some sl)"



fun min_distance_loop :: "PointXYZ list \<Rightarrow> real \<Rightarrow> real" where
  "min_distance_loop [] m = m"
| "min_distance_loop (p # ps) m = min_distance_loop ps (if m > d2_of p then d2_of p else m)"

text \<open>
  \<^verbatim>\<open>extractFeature(pc, f, min, max, centroid)\<close>: \<open>f\<close> comes in as the caller declared
  it (\<^verbatim>\<open>Feature f;\<close>, nothing assigned) and goes out updated.
\<close>

definition extractFeature ::
  "Object3dDetector \<Rightarrow> extern \<Rightarrow> PointXYZ list \<Rightarrow> Feature \<Rightarrow> Vector4f \<Rightarrow> Vector4f \<Rightarrow> Vector4f
     \<Rightarrow> Feature option" where
  "extractFeature d ext pc f mn mx c =
     (let f = f\<lparr>centroid := c, f_min := mn, f_max := mx\<rparr> in
      if use_svm_model d
      then (let f = f\<lparr>number_points := int (length pc)\<rparr>;
                f = f\<lparr>min_distance := min_distance_loop pc FLT_MAX\<rparr>;
                pc_projected = pca_project ext pc;
                f = f\<lparr>covariance_3d := computeCovarianceMatrixNormalized ext pc_projected c\<rparr>;
                f = f\<lparr>moment_3d := computeMomentOfInertiaTensorNormalized pc_projected\<rparr>
            in case computeSlice ext pc 10 (slice f) of
                 None \<Rightarrow> None
               | Some sl \<Rightarrow> Some (f\<lparr>slice := sl\<rparr>))
      else Some f)"

subsection \<open>Cluster orchestration (extractCluster, second half)\<close>







subsection \<open>Classification\<close>

definition set_node :: "(nat \<Rightarrow> svm_node) \<Rightarrow> nat \<Rightarrow> int \<Rightarrow> real \<Rightarrow> (nat \<Rightarrow> svm_node)" where
  "set_node nodes k i v = nodes(k := \<lparr>index = i, node_value = v\<rparr>)"

fun save_slice :: "Feature \<Rightarrow> nat list \<Rightarrow> (nat \<Rightarrow> svm_node) \<Rightarrow> (nat \<Rightarrow> svm_node)" where
  "save_slice f [] nodes = nodes"
| "save_slice f (i # rest) nodes =
     save_slice f rest (set_node nodes (i + 14) (int i + 15) (slice f i))"

definition saveFeature :: "Feature \<Rightarrow> (nat \<Rightarrow> svm_node) \<Rightarrow> (nat \<Rightarrow> svm_node)" where
  "saveFeature f nodes =
     (let nodes = set_node nodes 0 1 (real_of_int (number_points f));
          nodes = set_node nodes 1 2 (min_distance f);
          nodes = set_node nodes 2 3 (covariance_3d f 0 0);
          nodes = set_node nodes 3 4 (covariance_3d f 0 1);
          nodes = set_node nodes 4 5 (covariance_3d f 0 2);
          nodes = set_node nodes 5 6 (covariance_3d f 1 1);
          nodes = set_node nodes 6 7 (covariance_3d f 1 2);
          nodes = set_node nodes 7 8 (covariance_3d f 2 2);
          nodes = set_node nodes 8 9 (moment_3d f 0 0);
          nodes = set_node nodes 9 10 (moment_3d f 0 1);
          nodes = set_node nodes 10 11 (moment_3d f 0 2);
          nodes = set_node nodes 11 12 (moment_3d f 1 1);
          nodes = set_node nodes 12 13 (moment_3d f 1 2);
          nodes = set_node nodes 13 14 (moment_3d f 2 2);
          nodes = save_slice f [0..<20] nodes
      in nodes(FEATURE_SIZE := (nodes FEATURE_SIZE)\<lparr>index := - 1\<rparr>))"

text \<open>
  The division of the scaling formula, with the zero divisor as a case of its own
  (the reals have no infinity and no NaN for its result).
\<close>

definition checked_div :: "real \<Rightarrow> real \<Rightarrow> real option" where
  "checked_div a b = (if b = 0 then None else Some (a / b))"

text \<open>
  One pass of the body of the scaling loop on a value \<open>v\<close> whose stored range is
  \<open>(lower, upper)\<close>, for the targets \<open>(t_lo, t_hi)\<close>.
\<close>

definition scale_value :: "real \<Rightarrow> real \<Rightarrow> real \<Rightarrow> real \<Rightarrow> real \<Rightarrow> real option" where
  "scale_value lower upper t_lo t_hi v =
     (if \<bar>lower - upper\<bar> < DBL_EPSILON then Some v
      else if \<bar>v - lower\<bar> < DBL_EPSILON then Some t_lo
      else if \<bar>v - upper\<bar> < DBL_EPSILON then Some t_hi
      else (case checked_div ((t_hi - t_lo) * (v - lower)) (upper - lower) of
              None \<Rightarrow> None
            | Some q \<Rightarrow> Some (t_lo + q)))"

fun scale_loop :: "Object3dDetector \<Rightarrow> nat list \<Rightarrow> (nat \<Rightarrow> svm_node) \<Rightarrow> (nat \<Rightarrow> svm_node) option" where
  "scale_loop d [] nodes = Some nodes"
| "scale_loop d (i # rest) nodes =
     (case scale_value (fst (svm_scale_range d i)) (snd (svm_scale_range d i))
             (svm_x_lower d) (svm_x_upper d) (node_value (nodes i)) of
        None \<Rightarrow> None
      | Some v \<Rightarrow> scale_loop d rest (nodes(i := (nodes i)\<lparr>node_value := v\<rparr>)))"

text \<open>
  The decision on one feature: whether the loop body runs on to the output (\<open>True\<close>) or
  leaves by \<^verbatim>\<open>continue\<close> (\<open>False\<close>), and the node array \<^verbatim>\<open>svm_node_\<close> afterwards.
\<close>

definition classify_one ::
  "Object3dDetector \<Rightarrow> extern \<Rightarrow> (nat \<Rightarrow> svm_node) \<Rightarrow> Feature \<Rightarrow> (bool \<times> (nat \<Rightarrow> svm_node)) option" where
  "classify_one d ext nodes it =
     (if use_svm_model d
      then (case scale_loop d [0..<FEATURE_SIZE] (saveFeature it nodes) of
              None \<Rightarrow> None
            | Some nodes \<Rightarrow>
                if is_probability_model d
                then (if svm_predict_probability ext nodes 0 < human_probability d
                      then Some (False, nodes) else Some (True, nodes))
                else (if svm_predict ext nodes \<noteq> 1
                      then Some (False, nodes) else Some (True, nodes)))
      else Some (True, nodes))"

record Marker =
  marker_id :: nat
  marker_points :: "(real \<times> real \<times> real) list"
  marker_color :: "real \<times> real \<times> real"

record Detections =
  marker_array :: "Marker list"
  pma :: "(real \<times> real \<times> real) list"
  ppl :: "(real \<times> real \<times> real) list"

definition box_lines :: "Vector4f \<Rightarrow> Vector4f \<Rightarrow> (real \<times> real \<times> real) list" where
  "box_lines mn mx =
     [(mx 0, mx 1, mx 2), (mn 0, mx 1, mx 2), (mx 0, mx 1, mx 2), (mx 0, mn 1, mx 2),
      (mx 0, mx 1, mx 2), (mx 0, mx 1, mn 2), (mn 0, mn 1, mn 2), (mx 0, mn 1, mn 2),
      (mn 0, mn 1, mn 2), (mn 0, mx 1, mn 2), (mn 0, mn 1, mn 2), (mn 0, mn 1, mx 2),
      (mn 0, mx 1, mx 2), (mn 0, mx 1, mn 2), (mn 0, mx 1, mx 2), (mn 0, mn 1, mx 2),
      (mx 0, mn 1, mx 2), (mx 0, mn 1, mn 2), (mx 0, mn 1, mx 2), (mn 0, mn 1, mx 2),
      (mx 0, mx 1, mn 2), (mn 0, mx 1, mn 2), (mx 0, mx 1, mn 2), (mx 0, mn 1, mn 2)]"

text \<open>What one accepted feature, at position \<open>k\<close> of \<^verbatim>\<open>features_\<close>, adds to the output.\<close>

definition emit :: "Object3dDetector \<Rightarrow> nat \<Rightarrow> Feature \<Rightarrow> Detections \<Rightarrow> Detections" where
  "emit d k it out =
     (let marker = \<lparr>marker_id = k,
                    marker_points = box_lines (f_min it) (f_max it),
                    marker_color = (if \<not> use_svm_model d then (0.0, 0.5, 1.0) else (0.0, 1.0, 0.5))\<rparr>;
          pos = (centroid it 0, centroid it 1, centroid it 2)
      in out\<lparr>marker_array := marker_array out @ [marker],
              pma := pma out @ [pos],
              ppl := ppl out @ [pos]\<rparr>)"

fun classify_loop ::
  "Object3dDetector \<Rightarrow> extern \<Rightarrow> (nat \<Rightarrow> svm_node) \<Rightarrow> Feature list \<Rightarrow> nat \<Rightarrow> Detections
     \<Rightarrow> Detections option" where
  "classify_loop d ext nodes [] k out = Some out"
| "classify_loop d ext nodes (it # rest) k out =
     (case classify_one d ext nodes it of
        None \<Rightarrow> None
      | Some (accepted, nodes) \<Rightarrow>
          classify_loop d ext nodes rest (Suc k) (if accepted then emit d k it out else out))"

text \<open>
  \<^verbatim>\<open>classify()\<close> up to the three lists; each is published when it is not empty. Time
  stamps and the frame id of the messages are left out.
\<close>

definition classify ::
  "Object3dDetector \<Rightarrow> extern \<Rightarrow> (nat \<Rightarrow> svm_node) \<Rightarrow> Feature list \<Rightarrow> Detections option" where
  "classify d ext nodes features =
     classify_loop d ext nodes features 0 \<lparr>marker_array = [], pma = [], ppl = []\<rparr>"


section \<open>Example inputs\<close>


text \<open>
  A detector with the default parameters of the source but for \<open>human_size_limit\<close>,
  which is set, with a probability model and a range file read; \<open>coord\<close> and the two functions after it stand in for the libraries where an
  example needs them to compute: a bounding box, and a clustering that returns the whole
  regional cloud as one cluster.
\<close>

definition detector0 :: Object3dDetector where
  "detector0 =
     \<lparr>z_limit_min = - 0.8, z_limit_max = 1.2, cluster_size_min = 5, cluster_size_max = 30000,
      human_probability = 0.7, human_size_limit = True, use_svm_model = True,
      is_probability_model = True,
      svm_scale_range = (\<lambda>i. if i = 1 then (0, 10) else (0, 0)),
      svm_x_lower = - 1, svm_x_upper = 1\<rparr>"

definition nodes0 :: "nat \<Rightarrow> svm_node" where
  "nodes0 = (\<lambda>k. \<lparr>index = int k + 1, node_value = 5\<rparr>)"

definition feature0 :: Feature where
  "feature0 =
     \<lparr>centroid = (\<lambda>k. 0), f_min = (\<lambda>k. 0), f_max = (\<lambda>k. 0), number_points = 0,
      min_distance = 0, covariance_3d = (\<lambda>i j. 0), moment_3d = (\<lambda>i j. 0), slice = (\<lambda>k. 7)\<rparr>"

definition coord :: "nat \<Rightarrow> PointXYZ \<Rightarrow> real" where
  "coord k p = (if k = 0 then x p else if k = 1 then y p else if k = 2 then z p else 1)"

definition bbox_example :: "PointXYZ list \<Rightarrow> Vector4f \<times> Vector4f" where
  "bbox_example pc =
     ((\<lambda>k. fold (\<lambda>p m. min m (coord k p)) pc FLT_MAX),
      (\<lambda>k. fold (\<lambda>p m. max m (coord k p)) pc (- FLT_MAX)))"

definition one_cluster_example :: "extractClusterParam_t \<Rightarrow> PointXYZ list \<Rightarrow> (nat \<Rightarrow> real) \<times> (nat \<Rightarrow> nat)" where
  "one_cluster_example ecp cloud =
     ((\<lambda>n. if n div 4 < length cloud then coord (n mod 4) (cloud ! (n div 4)) else 0),
      (\<lambda>i. if i = 0 then 1 else if i = 1 then length cloud else 0))"

definition ext_example :: "real \<Rightarrow> extern" where
  "ext_example prob =
     \<lparr>getMinMax3D = bbox_example,
      compute3DCentroid = (\<lambda>pc k. 0),
      computeCovarianceMatrixNormalized = (\<lambda>pc c i j. 0),
      pca_project = (\<lambda>pc. pc),
      cudaec_extract = one_cluster_example,
      svm_predict_probability = (\<lambda>nodes k. prob),
      svm_predict = (\<lambda>nodes. 1)\<rparr>"







definition detector_raw :: Object3dDetector where
  "detector_raw = detector0\<lparr>use_svm_model := False, svm_scale_range := (\<lambda>i. (0, 1))\<rparr>"

definition nodes_half :: "nat \<Rightarrow> svm_node" where
  "nodes_half = (\<lambda>k. \<lparr>index = int k + 1, node_value = 0.5\<rparr>)"


section \<open>The band partition\<close>




















section \<open>Feature scaling\<close>

lemma DBL_EPSILON_pos: "0 < DBL_EPSILON"
  by (simp add: DBL_EPSILON_def)

lemma scale_divisor_nonzero: "\<not> \<bar>lower - upper\<bar> < DBL_EPSILON \<Longrightarrow> upper - lower \<noteq> 0"
  using DBL_EPSILON_pos by auto

lemma scale_value_Some:
  "scale_value lower upper t_lo t_hi v =
     Some (if \<bar>lower - upper\<bar> < DBL_EPSILON then v
           else if \<bar>v - lower\<bar> < DBL_EPSILON then t_lo
           else if \<bar>v - upper\<bar> < DBL_EPSILON then t_hi
           else t_lo + (t_hi - t_lo) * (v - lower) / (upper - lower))"
  using scale_divisor_nonzero[of lower upper]
  by (simp add: scale_value_def checked_div_def)

lemma scale_loop_Some:
  "distinct ks \<Longrightarrow>
   \<exists>nodes'. scale_loop d ks nodes = Some nodes' \<and>
     (\<forall>k. nodes' k =
        (if k \<in> set ks
         then (nodes k)\<lparr>node_value :=
                the (scale_value (fst (svm_scale_range d k)) (snd (svm_scale_range d k))
                       (svm_x_lower d) (svm_x_upper d) (node_value (nodes k)))\<rparr>
         else nodes k))"
proof (induction ks arbitrary: nodes)
  case Nil
  then show ?case by simp
next
  case (Cons i ks)
  obtain v where v: "scale_value (fst (svm_scale_range d i)) (snd (svm_scale_range d i))
             (svm_x_lower d) (svm_x_upper d) (node_value (nodes i)) = Some v"
    by (simp add: scale_value_Some)
  let ?nodes = "nodes(i := (nodes i)\<lparr>node_value := v\<rparr>)"
  from Cons.prems have "distinct ks" and i: "i \<notin> set ks" by simp_all
  from Cons.IH[OF this(1), of ?nodes] obtain nodes' where
    n: "scale_loop d ks ?nodes = Some nodes'"
      "\<forall>k. nodes' k =
        (if k \<in> set ks
         then (?nodes k)\<lparr>node_value :=
                the (scale_value (fst (svm_scale_range d k)) (snd (svm_scale_range d k))
                       (svm_x_lower d) (svm_x_upper d) (node_value (?nodes k)))\<rparr>
         else ?nodes k)"
    by blast
  have "scale_loop d (i # ks) nodes = Some nodes'"
    using v n(1) by simp
  moreover have "\<forall>k. nodes' k =
        (if k \<in> set (i # ks)
         then (nodes k)\<lparr>node_value :=
                the (scale_value (fst (svm_scale_range d k)) (snd (svm_scale_range d k))
                       (svm_x_lower d) (svm_x_upper d) (node_value (nodes k)))\<rparr>
         else nodes k)"
    using n(2) i v by auto
  ultimately show ?case by blast
qed

text \<open>
  Claim C2, as amended. For every dimension \<open>i\<close> of the 34 with stored range
  \<open>(lower, upper)\<close> and targets \<open>(t_lo, t_hi)\<close>, the scaling loop returns, and leaves in
  node \<open>i\<close>: the value itself when \<open>\<bar>lower - upper\<bar> < \<epsilon>\<close>; otherwise \<open>t_lo\<close> when the
  value is within \<open>\<epsilon>\<close> of \<open>lower\<close>; otherwise \<open>t_hi\<close> when the value is within \<open>\<epsilon>\<close> of
  \<open>upper\<close> (and not within \<open>\<epsilon>\<close> of \<open>lower\<close>); otherwise
  \<open>t_lo + (t_hi - t_lo) * (value - lower) / (upper - lower)\<close>. The divisor of that last
  case is never zero, and a value equal to \<open>lower\<close> (to \<open>upper\<close>) of a range that is not
  degenerate goes to \<open>t_lo\<close> (to \<open>t_hi\<close>).
\<close>

theorem C2_scaling:
  assumes "i < FEATURE_SIZE"
    and "svm_scale_range d i = (lower, upper)"
    and "svm_x_lower d = t_lo" and "svm_x_upper d = t_hi"
    and "node_value (nodes i) = v"
  shows "(\<exists>nodes'. scale_loop d [0..<FEATURE_SIZE] nodes = Some nodes'
           \<and> index (nodes' i) = index (nodes i)
           \<and> node_value (nodes' i) =
               (if \<bar>lower - upper\<bar> < DBL_EPSILON then v
                else if \<bar>v - lower\<bar> < DBL_EPSILON then t_lo
                else if \<bar>v - upper\<bar> < DBL_EPSILON then t_hi
                else t_lo + (t_hi - t_lo) * (v - lower) / (upper - lower)))
     \<and> (\<not> \<bar>lower - upper\<bar> < DBL_EPSILON \<longrightarrow> upper - lower \<noteq> 0)
     \<and> (\<not> \<bar>lower - upper\<bar> < DBL_EPSILON \<longrightarrow>
          scale_value lower upper t_lo t_hi lower = Some t_lo
          \<and> scale_value lower upper t_lo t_hi upper = Some t_hi)"
proof (intro conjI)
  from scale_loop_Some[of "[0..<FEATURE_SIZE]" d nodes] obtain nodes' where
    n: "scale_loop d [0..<FEATURE_SIZE] nodes = Some nodes'"
      "\<forall>k. nodes' k =
        (if k \<in> set [0..<FEATURE_SIZE]
         then (nodes k)\<lparr>node_value :=
                the (scale_value (fst (svm_scale_range d k)) (snd (svm_scale_range d k))
                       (svm_x_lower d) (svm_x_upper d) (node_value (nodes k)))\<rparr>
         else nodes k)"
    by auto
  from n(2) assms have "nodes' i = (nodes i)\<lparr>node_value :=
      the (scale_value lower upper t_lo t_hi v)\<rparr>"
    by simp
  then have "index (nodes' i) = index (nodes i)"
    and "node_value (nodes' i) =
               (if \<bar>lower - upper\<bar> < DBL_EPSILON then v
                else if \<bar>v - lower\<bar> < DBL_EPSILON then t_lo
                else if \<bar>v - upper\<bar> < DBL_EPSILON then t_hi
                else t_lo + (t_hi - t_lo) * (v - lower) / (upper - lower))"
    by (simp_all add: scale_value_Some)
  with n(1) show "\<exists>nodes'. scale_loop d [0..<FEATURE_SIZE] nodes = Some nodes'
           \<and> index (nodes' i) = index (nodes i)
           \<and> node_value (nodes' i) =
               (if \<bar>lower - upper\<bar> < DBL_EPSILON then v
                else if \<bar>v - lower\<bar> < DBL_EPSILON then t_lo
                else if \<bar>v - upper\<bar> < DBL_EPSILON then t_hi
                else t_lo + (t_hi - t_lo) * (v - lower) / (upper - lower))"
    by blast
  show "\<not> \<bar>lower - upper\<bar> < DBL_EPSILON \<longrightarrow> upper - lower \<noteq> 0"
    using scale_divisor_nonzero by blast
  show "\<not> \<bar>lower - upper\<bar> < DBL_EPSILON \<longrightarrow>
          scale_value lower upper t_lo t_hi lower = Some t_lo
          \<and> scale_value lower upper t_lo t_hi upper = Some t_hi"
    using DBL_EPSILON_pos by (auto simp: scale_value_Some abs_minus_commute)
qed

text \<open>
  The theorem at dimension 2 of \<open>detector0\<close>, whose range is \<open>(0, 10)\<close> for the targets
  \<open>(-1, 1)\<close>: the value 5 is scaled to 0.
\<close>

theorem C2_scaling_witness:
  "\<exists>nodes'. scale_loop detector0 [0..<FEATURE_SIZE] nodes0 = Some nodes'
      \<and> index (nodes' 1) = 2 \<and> node_value (nodes' 1) = 0"
proof -
  have a: "1 < FEATURE_SIZE" by (simp add: FEATURE_SIZE_def)
  have b: "svm_scale_range detector0 1 = (0, 10)" by (simp add: detector0_def)
  have c: "svm_x_lower detector0 = - 1" "svm_x_upper detector0 = 1"
    by (simp_all add: detector0_def)
  have e: "node_value (nodes0 1) = 5" by (simp add: nodes0_def)
  from C2_scaling[where i = 1 and d = detector0 and nodes = nodes0, OF a b c e] show ?thesis
    by (simp add: DBL_EPSILON_def nodes0_def)
qed

text \<open>
  Claim C2 as it was stated fails where a value is within \<open>\<epsilon>\<close> of both bounds: for the
  range \<open>(0, 1.5 \<epsilon>)\<close>, which is not degenerate, the value \<open>0.75 \<epsilon>\<close> is within \<open>\<epsilon>\<close> of
  \<open>upper\<close>, and the code maps it to \<open>t_lo = -1\<close>, not to \<open>t_hi = 1\<close>.
\<close>

theorem C2_overlap_counterexample:
  "\<not> \<bar>0 - 3 / 2 ^ 53\<bar> < DBL_EPSILON
   \<and> \<bar>3 / 2 ^ 54 - 3 / 2 ^ 53\<bar> < DBL_EPSILON
   \<and> scale_value 0 (3 / 2 ^ 53) (- 1) 1 (3 / 2 ^ 54) = Some (- 1)
   \<and> (- 1 :: real) \<noteq> 1"
  by (simp add: scale_value_def DBL_EPSILON_def)

section \<open>The classification decision\<close>

lemma scale_loop_total: "\<exists>scaled. scale_loop d [0..<FEATURE_SIZE] nodes = Some scaled"
  using scale_loop_Some[of "[0..<FEATURE_SIZE]" d nodes] by auto

text \<open>
  A model that gives probabilities and a range file whose rows are within the table put
  the detector in the mode the next theorem is about.
\<close>

lemma init_probability_model:
  assumes "\<forall>row\<in>set rows. 1 \<le> fst row \<and> fst row \<le> int FEATURE_SIZE"
  shows "\<exists>d. Object3dDetector_init d0 (Some True) (Some (lower, upper, rows)) = Some d
    \<and> use_svm_model d \<and> is_probability_model d"
proof -
  have "\<exists>r'. range_rows rows r = Some r'" for r
    using assms by (induction rows arbitrary: r) auto
  then obtain r' where "range_rows rows (svm_scale_range d0) = Some r'" by blast
  then show ?thesis
    by (simp add: Object3dDetector_init_def)
qed

text \<open>
  Claim C3. With a model in use that gives probabilities, the scaling of the saved
  feature returns, and the feature is accepted exactly when the first probability
  estimate of the classifier, the one the code takes for the human class, is at least
  \<open>human_probability\<close>; an accepted feature is added to the detection lists and a
  rejected one is not. For the threshold 0.7 the estimate 0.65 is rejected and the
  estimate 0.75 accepted.
\<close>

theorem C3_probability_threshold:
  assumes "use_svm_model d" and "is_probability_model d"
  shows "\<exists>scaled. scale_loop d [0..<FEATURE_SIZE] (saveFeature it nodes) = Some scaled
      \<and> classify_one d ext nodes it =
          Some (human_probability d \<le> svm_predict_probability ext scaled 0, scaled)
      \<and> classify d ext nodes [it] =
          Some (if human_probability d \<le> svm_predict_probability ext scaled 0
                then emit d 0 it \<lparr>marker_array = [], pma = [], ppl = []\<rparr>
                else \<lparr>marker_array = [], pma = [], ppl = []\<rparr>)
      \<and> (human_probability d = 0.7 \<and> svm_predict_probability ext scaled 0 = 0.65 \<longrightarrow>
            classify_one d ext nodes it = Some (False, scaled))
      \<and> (human_probability d = 0.7 \<and> svm_predict_probability ext scaled 0 = 0.75 \<longrightarrow>
            classify_one d ext nodes it = Some (True, scaled))"
proof -
  from scale_loop_total obtain scaled where
    s: "scale_loop d [0..<FEATURE_SIZE] (saveFeature it nodes) = Some scaled"
    by blast
  have one: "classify_one d ext nodes it =
          Some (human_probability d \<le> svm_predict_probability ext scaled 0, scaled)"
    using assms s by (simp add: classify_one_def not_less)
  have "classify d ext nodes [it] =
          Some (if human_probability d \<le> svm_predict_probability ext scaled 0
                then emit d 0 it \<lparr>marker_array = [], pma = [], ppl = []\<rparr>
                else \<lparr>marker_array = [], pma = [], ppl = []\<rparr>)"
    by (simp add: classify_def one)
  moreover have "human_probability d = 0.7 \<and> svm_predict_probability ext scaled 0 = 0.65 \<longrightarrow>
            classify_one d ext nodes it = Some (False, scaled)"
    by (simp add: one)
  moreover have "human_probability d = 0.7 \<and> svm_predict_probability ext scaled 0 = 0.75 \<longrightarrow>
            classify_one d ext nodes it = Some (True, scaled)"
    by (simp add: one)
  ultimately show ?thesis using s one by blast
qed

text \<open>
  The theorem at \<open>detector0\<close>, whose threshold is 0.7, for a classifier that answers 0.75
  and for one that answers 0.65.
\<close>

theorem C3_probability_threshold_witness:
  "(\<exists>scaled. classify_one detector0 (ext_example 0.75) nodes0 feature0 = Some (True, scaled))
   \<and> (\<exists>scaled. classify_one detector0 (ext_example 0.65) nodes0 feature0 = Some (False, scaled))
   \<and> map_option ppl (classify detector0 (ext_example 0.75) nodes0 [feature0]) = Some [(0, 0, 0)]
   \<and> map_option ppl (classify detector0 (ext_example 0.65) nodes0 [feature0]) = Some []"
proof -
  have m: "use_svm_model detector0" "is_probability_model detector0"
    by (simp_all add: detector0_def)
  have t: "human_probability detector0 = 0.7" by (simp add: detector0_def)
  have hi: "svm_predict_probability (ext_example 0.75) = (\<lambda>nodes k. 0.75)"
    and lo: "svm_predict_probability (ext_example 0.65) = (\<lambda>nodes k. 0.65)"
    by (simp_all add: ext_example_def)
  from C3_probability_threshold[OF m, of feature0 nodes0 "ext_example 0.75"]
  have 1: "(\<exists>scaled. classify_one detector0 (ext_example 0.75) nodes0 feature0 = Some (True, scaled))
     \<and> map_option ppl (classify detector0 (ext_example 0.75) nodes0 [feature0]) = Some [(0, 0, 0)]"
    unfolding hi t by (auto simp: emit_def feature0_def Let_def)
  from C3_probability_threshold[OF m, of feature0 nodes0 "ext_example 0.65"]
  have 2: "(\<exists>scaled. classify_one detector0 (ext_example 0.65) nodes0 feature0 = Some (False, scaled))
     \<and> map_option ppl (classify detector0 (ext_example 0.65) nodes0 [feature0]) = Some []"
    unfolding lo t by auto
  from 1 2 show ?thesis by blast
qed

section \<open>Feature extraction\<close>






lemma slice_loop_above: "(i + length blocks) * 2 \<le> k \<Longrightarrow> slice_loop ext blocks i sl k = sl k"
  by (induction blocks arbitrary: i sl) auto





















section \<open>Model-free mode\<close>



lemma extractFeature_free:
  "\<not> use_svm_model d \<Longrightarrow>
   extractFeature d ext pc f mn mx c = Some (f\<lparr>centroid := c, f_min := mn, f_max := mx\<rparr>)"
  by (simp add: extractFeature_def)







section \<open>Cluster orchestration\<close>













text \<open>
  Claim C10. In model-free mode \<^verbatim>\<open>extractFeature\<close> returns the feature it was given with
  the centroid and the two corners of the bounding box assigned and nothing else: the
  point count, the minimum distance, both matrices and the slice descriptor are what the
  declared, unassigned \<^verbatim>\<open>Feature\<close> held.
\<close>

theorem C10_model_free_feature:
  assumes "\<not> use_svm_model d"
  shows "\<exists>f'. extractFeature d ext pc f mn mx c = Some f'
      \<and> f' = f\<lparr>centroid := c, f_min := mn, f_max := mx\<rparr>
      \<and> centroid f' = c \<and> f_min f' = mn \<and> f_max f' = mx
      \<and> number_points f' = number_points f \<and> min_distance f' = min_distance f
      \<and> covariance_3d f' = covariance_3d f \<and> moment_3d f' = moment_3d f
      \<and> slice f' = slice f"
  using assms by (simp add: extractFeature_free)

text \<open>The theorem at a one-point cluster and a feature whose slice entries all held 7.\<close>

theorem C10_model_free_feature_witness:
  "\<exists>f'. extractFeature (detector0\<lparr>use_svm_model := False\<rparr>) (ext_example 0)
           [\<lparr>x = 1, y = 2, z = 3\<rparr>] feature0 (\<lambda>k. 1) (\<lambda>k. 2) (\<lambda>k. 3) = Some f'
      \<and> centroid f' 0 = 3 \<and> f_min f' 0 = 1 \<and> f_max f' 0 = 2
      \<and> number_points f' = 0 \<and> min_distance f' = 0 \<and> slice f' 0 = 7"
proof -
  have free: "\<not> use_svm_model (detector0\<lparr>use_svm_model := False\<rparr>)" by simp
  from C10_model_free_feature[OF free, of "ext_example 0" "[\<lparr>x = 1, y = 2, z = 3\<rparr>]"
      feature0 "\<lambda>k. 1" "\<lambda>k. 2" "\<lambda>k. 3"]
  show ?thesis by (auto simp: feature0_def)
qed

section \<open>The range table\<close>

lemma range_rows_unlisted:
  "range_rows rows r = Some r' \<Longrightarrow> \<forall>row\<in>set rows. fst row \<noteq> int i + 1 \<Longrightarrow> r' i = r i"
proof (induction rows arbitrary: r)
  case Nil
  then show ?case by simp
next
  case (Cons row rows)
  obtain idx fmin fmax where row: "row = (idx, fmin, fmax)" by (cases row)
  from Cons.prems(1) have ok: "1 \<le> idx" "idx \<le> int FEATURE_SIZE"
    and rest: "range_rows rows (r(nat (idx - 1) := (fmin, fmax))) = Some r'"
    unfolding row by (auto split: if_splits)
  from Cons.prems(2) have ne: "idx \<noteq> int i + 1" and others: "\<forall>row\<in>set rows. fst row \<noteq> int i + 1"
    unfolding row by auto
  from ok ne have "nat (idx - 1) \<noteq> i" by linarith
  with Cons.IH[OF rest others] show ?case by simp
qed

text \<open>
  What the constructor leaves in a row that the range file does not list: the content
  the object had before, which nothing initialised.
\<close>

lemma init_unlisted_row:
  assumes "Object3dDetector_init d0 (Some prob) (Some (lower, upper, rows)) = Some d"
    and "\<forall>row\<in>set rows. fst row \<noteq> int i + 1"
  shows "svm_scale_range d i = svm_scale_range d0 i"
proof -
  from assms(1) obtain r where
    r: "range_rows rows (svm_scale_range d0) = Some r" and d: "svm_scale_range d = r"
    by (auto simp: Object3dDetector_init_def Let_def split: option.splits)
  from range_rows_unlisted[OF r assms(2)] d show ?thesis by simp
qed

text \<open>
  Scaling leaves the dimension of such a row alone when the content found there has
  (nearly) equal bounds, as zeroed memory has; nothing in the constructor sees to that.
\<close>

lemma unlisted_row_degenerate_noop:
  assumes "Object3dDetector_init d0 (Some prob) (Some (lower, upper, rows)) = Some d"
    and "\<forall>row\<in>set rows. fst row \<noteq> int i + 1"
    and "\<bar>fst (svm_scale_range d0 i) - snd (svm_scale_range d0 i)\<bar> < DBL_EPSILON"
    and "scale_loop d [0..<FEATURE_SIZE] nodes = Some nodes'"
  shows "nodes' i = nodes i"
proof -
  have row: "svm_scale_range d i = svm_scale_range d0 i"
    using assms(1,2) by (rule init_unlisted_row)
  from scale_loop_Some[of "[0..<FEATURE_SIZE]" d nodes] assms(4)
  have "nodes' i =
        (if i \<in> set [0..<FEATURE_SIZE]
         then (nodes i)\<lparr>node_value :=
                the (scale_value (fst (svm_scale_range d i)) (snd (svm_scale_range d i))
                       (svm_x_lower d) (svm_x_upper d) (node_value (nodes i)))\<rparr>
         else nodes i)"
    by auto
  then show ?thesis
    using assms(3) by (simp add: row scale_value_def)
qed

text \<open>
  Claim C9 is not what the code does. The range file lists dimension 1 only; the row of
  dimension 2 (index 1 here) held \<open>(0, 1)\<close> before the constructor ran and holds it
  after; the scaling loop then maps the value 0.5 of that dimension to 0.
\<close>

theorem C9_unlisted_dimension_scaled:
  "\<exists>d nodes'. Object3dDetector_init detector_raw (Some True) (Some (- 1, 1, [(1, 0, 10)])) = Some d
      \<and> use_svm_model d
      \<and> svm_scale_range d 1 = (0, 1)
      \<and> scale_loop d [0..<FEATURE_SIZE] nodes_half = Some nodes'
      \<and> node_value (nodes_half 1) = 0.5
      \<and> node_value (nodes' 1) = 0"
proof -
  let ?d = "detector_raw\<lparr>is_probability_model := True, svm_x_lower := - 1, svm_x_upper := 1,
      svm_scale_range := (svm_scale_range detector_raw)(0 := (0, 10)), use_svm_model := True\<rparr>"
  have init: "Object3dDetector_init detector_raw (Some True) (Some (- 1, 1, [(1, 0, 10)])) = Some ?d"
    by (simp add: Object3dDetector_init_def FEATURE_SIZE_def)
  have row: "svm_scale_range ?d 1 = (0, 1)" by (simp add: detector_raw_def)
  from scale_loop_Some[of "[0..<FEATURE_SIZE]" ?d nodes_half] obtain nodes' where
    n: "scale_loop ?d [0..<FEATURE_SIZE] nodes_half = Some nodes'"
      "\<forall>k. nodes' k =
        (if k \<in> set [0..<FEATURE_SIZE]
         then (nodes_half k)\<lparr>node_value :=
                the (scale_value (fst (svm_scale_range ?d k)) (snd (svm_scale_range ?d k))
                       (svm_x_lower ?d) (svm_x_upper ?d) (node_value (nodes_half k)))\<rparr>
         else nodes_half k)"
    by auto
  have v: "node_value (nodes_half 1) = 0.5" by (simp add: nodes_half_def)
  from n(2) have "node_value (nodes' 1) = the (scale_value 0 1 (- 1) 1 (1 / 2))"
    by (simp add: FEATURE_SIZE_def detector_raw_def nodes_half_def)
  also have "\<dots> = 0"
    by (simp add: scale_value_def checked_div_def DBL_EPSILON_def)
  finally have "node_value (nodes' 1) = 0" .
  with init row n(1) v show ?thesis by auto
qed

end
